theory Spec2Isabelle
  imports Complex_Main
begin

section \<open>Conventions of the embedding\<close>

text \<open>
  The sources are JavaScript. A JavaScript number is modelled as a \<^typ>\<open>real\<close>: rounding
  of IEEE doubles is not represented, and \<open>Infinity\<close> appears only where the source
  writes it (the initial \<open>closestDiff\<close> of \<open>getFrameAtTime\<close>, modelled by \<open>None\<close>).
  Cells of a \<open>Float32Array\<close>, the numbers of a level report and the sync quality are of
  type \<open>jsnum\<close> (defined below), which adds \<open>NaN\<close>, because the code itself can produce it
  from real inputs: by a read outside the sample buffer, or by \<open>0 / 0\<close>.

  Every object is a record that is passed in and returned updated. What a function
  does beyond its fields is kept as a trace inside the record: the lines written to
  \<open>console\<close>, the frames whose \<open>close()\<close> was called, the messages posted on the port.
  A console line is its level and its literal first argument; further arguments are dropped.
\<close>

datatype logline = Log string | Warn string | Err string

section \<open>The decoder's frame buffer (VideoDecoderManager)\<close>

text \<open>
  A captured frame. \<open>timestamp\<close> is in microseconds. \<open>imageData\<close> stands for the pixels.
  The \<open>close\<close> method of a frame is observed through the \<open>closed\<close> trace of the manager.
\<close>

record frame =
  timestamp :: real
  width :: nat
  height :: nat
  imageData :: "nat list"

record decoder =
  frameBuffer :: "frame list"
  maxBufferSize :: nat
  isDecoding :: bool
  currentTime :: real
  duration :: real
  videoWidth :: nat
  videoHeight :: nat
  frameRate :: real
  videoElementCurrentTime :: real
  closed :: "frame list"
  console :: "logline list"

text \<open>
  The constructor: an empty buffer of capacity 30. The manager is modelled while its
  video element exists, from \<open>initialize\<close> to \<open>cleanup\<close>; the element is represented by
  its \<open>currentTime\<close>, the field \<open>videoElementCurrentTime\<close>.
\<close>

definition VideoDecoderManager :: decoder where
  "VideoDecoderManager =
     \<lparr>frameBuffer = [], maxBufferSize = 30, isDecoding = False, currentTime = 0,
      duration = 0, videoWidth = 0, videoHeight = 0, frameRate = 0,
      videoElementCurrentTime = 0, closed = [],
      console = [Log ''VideoDecoderManager created'']\<rparr>"

text \<open>
  The loop of \<open>addFrameToBuffer\<close>: while the buffer is longer than \<open>maxBufferSize\<close>,
  \<open>shift()\<close> the first frame and call its \<open>close()\<close>.
\<close>

function evictOldest :: "decoder \<Rightarrow> decoder" where
  "evictOldest d =
     (if length (frameBuffer d) > maxBufferSize d then
        (case frameBuffer d of
           [] \<Rightarrow> d
         | oldestFrame # rest \<Rightarrow>
             evictOldest (d\<lparr>frameBuffer := rest, closed := closed d @ [oldestFrame]\<rparr>))
      else d)"
  by pat_completeness auto
termination
  by (relation "measure (\<lambda>d. length (frameBuffer d))") auto

declare evictOldest.simps [simp del]

definition addFrameToBuffer :: "decoder \<Rightarrow> frame \<Rightarrow> decoder" where
  "addFrameToBuffer d f = evictOldest (d\<lparr>frameBuffer := frameBuffer d @ [f]\<rparr>)"

text \<open>\<open>clearFrameBuffer\<close> closes every buffered frame, in order, and empties the buffer.\<close>

definition clearFrameBuffer :: "decoder \<Rightarrow> decoder" where
  "clearFrameBuffer d = d\<lparr>closed := closed d @ frameBuffer d, frameBuffer := []\<rparr>"

text \<open>
  The loop of \<open>getFrameAtTime\<close> over the buffer, carrying \<open>closestFrame\<close> (\<open>null\<close> is
  \<open>None\<close>) and \<open>closestDiff\<close> (\<open>Infinity\<close> is \<open>None\<close>). The comparison is strict, so among
  equally close frames the first one stays.
\<close>

fun closestLoop :: "real \<Rightarrow> frame list \<Rightarrow> frame option \<times> real option \<Rightarrow> frame option \<times> real option" where
  "closestLoop timeUs [] acc = acc"
| "closestLoop timeUs (f # fs) (closestFrame, closestDiff) =
     (let diff = \<bar>timestamp f - timeUs\<bar> in
      if (case closestDiff of None \<Rightarrow> True | Some c \<Rightarrow> diff < c)
      then closestLoop timeUs fs (Some f, Some diff)
      else closestLoop timeUs fs (closestFrame, closestDiff))"

definition getFrameAtTime :: "decoder \<Rightarrow> real \<Rightarrow> frame option" where
  "getFrameAtTime d time = fst (closestLoop (time * 1000000) (frameBuffer d) (None, None))"

text \<open>
  \<open>seek\<close> clamps the time to \<open>[0, duration]\<close>, sets the video element's time, clears the
  buffer and logs. The manager's own \<open>currentTime\<close> is only set by \<open>handleTimeUpdate\<close>.
\<close>

definition seek :: "decoder \<Rightarrow> real \<Rightarrow> decoder" where
  "seek d time =
     (let clampedTime = max 0 (min time (duration d));
          d1 = d\<lparr>videoElementCurrentTime := clampedTime\<rparr>;
          d2 = clearFrameBuffer d1
      in d2\<lparr>console := console d2 @ [Log ''Seeked to time:'']\<rparr>)"

definition handleTimeUpdate :: "decoder \<Rightarrow> decoder" where
  "handleTimeUpdate d = d\<lparr>currentTime := videoElementCurrentTime d\<rparr>"

section \<open>Numbers that can be NaN\<close>

text \<open>
  \<open>jsnum\<close> is a number or \<open>NaN\<close>. The operations are the ones the sources apply to
  such values: \<open>Math.abs\<close>, \<open>Math.max\<close> (\<open>NaN\<close> as soon as one argument is), \<open>+\<close>, \<open>*\<close>,
  division by an array length (\<open>0 / 0\<close> is \<open>NaN\<close>) and \<open>Math.sqrt\<close>.
\<close>

datatype jsnum = Num real | NaN

fun js_abs :: "jsnum \<Rightarrow> jsnum" where
  "js_abs (Num x) = Num \<bar>x\<bar>"
| "js_abs NaN = NaN"

fun js_max :: "jsnum \<Rightarrow> jsnum \<Rightarrow> jsnum" where
  "js_max (Num x) (Num y) = Num (max x y)"
| "js_max _ _ = NaN"

fun js_add :: "jsnum \<Rightarrow> jsnum \<Rightarrow> jsnum" where
  "js_add (Num x) (Num y) = Num (x + y)"
| "js_add _ _ = NaN"

fun js_mul :: "jsnum \<Rightarrow> jsnum \<Rightarrow> jsnum" where
  "js_mul (Num x) (Num y) = Num (x * y)"
| "js_mul _ _ = NaN"

text \<open>
  \<open>sum / output.length\<close>, where \<open>sum\<close> is a sum of squares: it is \<open>0\<close> when the length is
  \<open>0\<close>, so the only division by zero is \<open>0 / 0\<close>.
\<close>

fun js_div_length :: "jsnum \<Rightarrow> nat \<Rightarrow> jsnum" where
  "js_div_length (Num x) n = (if n = 0 then NaN else Num (x / real n))"
| "js_div_length NaN n = NaN"

fun js_sqrt :: "jsnum \<Rightarrow> jsnum" where
  "js_sqrt (Num x) = (if x < 0 then NaN else Num (sqrt x))"
| "js_sqrt NaN = NaN"

section \<open>The synchronisation module (sync.js)\<close>

record config =
  maxTimeDifference :: real
  syncCheckInterval :: real
  debug :: bool

text \<open>
  The module's variables: \<open>config\<close>, \<open>lastSyncTime\<close>, \<open>lastRenderedFrameTime\<close>, and the
  lines the module itself writes to the console (only in debug mode).
\<close>

record syncModule =
  config :: config
  lastSyncTime :: real
  lastRenderedFrameTime :: real
  syncConsole :: "logline list"

definition syncModuleInit :: syncModule where
  "syncModuleInit =
     \<lparr>config = \<lparr>maxTimeDifference = 0.1, syncCheckInterval = 100, debug = False\<rparr>,
      lastSyncTime = 0, lastRenderedFrameTime = -1, syncConsole = []\<rparr>"

text \<open>
  \<open>syncAudioVideo(videoDecoder, audioTime)\<close>. A missing decoder is \<open>None\<close>. \<open>now\<close> is the
  value \<open>performance.now()\<close> returns at the end of the call.
\<close>

definition syncAudioVideo ::
  "syncModule \<Rightarrow> real \<Rightarrow> decoder option \<Rightarrow> real \<Rightarrow> syncModule \<times> decoder option" where
  "syncAudioVideo m now videoDecoder audioTime =
     (case videoDecoder of
        None \<Rightarrow> (m, None)
      | Some vd \<Rightarrow>
          (let videoTime = currentTime vd;
               timeDiff = \<bar>audioTime - videoTime\<bar>;
               (m1, vd1) =
                 (if timeDiff > maxTimeDifference (config m)
                  then (if debug (config m)
                        then m\<lparr>syncConsole := syncConsole m @ [Log ''A/V Sync: Resynced video'']\<rparr>
                        else m,
                        seek vd audioTime)
                  else (m, vd))
           in (m1\<lparr>lastSyncTime := now\<rparr>, Some vd1)))"

record syncMetrics =
  timeDifference :: real
  inSync :: bool
  syncQuality :: jsnum

text \<open>
  \<open>calculateSyncMetrics(videoDecoder, audioTime)\<close>. The quotient
  \<open>Math.abs(timeDiff) / config.maxTimeDifference\<close> is written out for a zero threshold:
  \<open>0 / 0\<close> is \<open>NaN\<close>, and a positive difference over \<open>0\<close> is \<open>Infinity\<close>, which
  \<open>Math.max(0, 100 - Infinity)\<close> turns into \<open>0\<close>.
\<close>

definition calculateSyncMetrics :: "syncModule \<Rightarrow> decoder option \<Rightarrow> real \<Rightarrow> syncMetrics" where
  "calculateSyncMetrics m videoDecoder audioTime =
     (case videoDecoder of
        None \<Rightarrow> \<lparr>timeDifference = 0, inSync = True, syncQuality = Num 100\<rparr>
      | Some vd \<Rightarrow>
          (let videoTime = currentTime vd;
               timeDiff = audioTime - videoTime;
               inSync = (\<bar>timeDiff\<bar> \<le> maxTimeDifference (config m));
               syncQuality =
                 (if maxTimeDifference (config m) = 0
                  then (if timeDiff = 0 then NaN else Num 0)
                  else Num (max 0 (100 - (\<bar>timeDiff\<bar> / maxTimeDifference (config m)) * 100)))
           in \<lparr>timeDifference = timeDiff, inSync = inSync, syncQuality = syncQuality\<rparr>))"

definition setSyncConfig :: "syncModule \<Rightarrow> real option \<Rightarrow> real option \<Rightarrow> bool option \<Rightarrow> syncModule" where
  "setSyncConfig m optMaxTimeDifference optSyncCheckInterval optDebug =
     (let c = config m;
          c1 = (case optMaxTimeDifference of None \<Rightarrow> c | Some v \<Rightarrow> c\<lparr>maxTimeDifference := v\<rparr>);
          c2 = (case optSyncCheckInterval of None \<Rightarrow> c1 | Some v \<Rightarrow> c1\<lparr>syncCheckInterval := v\<rparr>);
          c3 = (case optDebug of None \<Rightarrow> c2 | Some v \<Rightarrow> c2\<lparr>debug := v\<rparr>)
      in m\<lparr>config := c3\<rparr>)"

section \<open>The sampler worklet (SamplerProcessor)\<close>

text \<open>
  The processor is the class of the worklet code that carries its own JavaScript
  implementation of \<open>rustProcessor\<close> (the object built in \<open>initializeWasm\<close>, whose methods
  close over the fields of the processor). The file \<open>sampler-worklet.js\<close> has the same
  \<open>process\<close> and \<open>loadSample\<close> around a \<open>rustProcessor\<close> obtained from a Wasm module;
  \<open>process_with\<close> below is written over any such inner processor.

  The global \<open>sampleRate\<close> of the worklet scope (the device rate, positive) is the
  parameter \<open>deviceSampleRate\<close>; the value of \<open>Math.random()\<close> is the parameter \<open>rnd\<close>.
\<close>

datatype message =
    Initialized
  | SampleLoaded
  | ErrorMessage string
  | Levels jsnum jsnum

record processor =
  initialized :: bool
  rustProcessor :: "unit option"
  sampleBuffer :: "jsnum list option"
  sampleRate :: real
  isPlaying :: bool
  playbackPosition :: real
  port :: "message list"
  workletConsole :: "logline list"

text \<open>The constructor. Fields assigned only by \<open>initializeWasm\<close> start as falsy values.\<close>

definition SamplerProcessor :: processor where
  "SamplerProcessor =
     \<lparr>initialized = False, rustProcessor = None, sampleBuffer = None, sampleRate = 0,
      isPlaying = False, playbackPosition = 0, port = [],
      workletConsole = [Log ''SamplerProcessor created'']\<rparr>"

definition console_log :: "string \<Rightarrow> processor \<Rightarrow> processor" where
  "console_log s p = p\<lparr>workletConsole := workletConsole p @ [Log s]\<rparr>"

definition console_warn :: "string \<Rightarrow> processor \<Rightarrow> processor" where
  "console_warn s p = p\<lparr>workletConsole := workletConsole p @ [Warn s]\<rparr>"

definition console_error :: "string \<Rightarrow> processor \<Rightarrow> processor" where
  "console_error s p = p\<lparr>workletConsole := workletConsole p @ [Err s]\<rparr>"

definition postMessage :: "message \<Rightarrow> processor \<Rightarrow> processor" where
  "postMessage msg p = p\<lparr>port := port p @ [msg]\<rparr>"

subsection \<open>The methods of rustProcessor\<close>

text \<open>
  \<open>load_sample_data\<close> and \<open>set_playback_state\<close> keep their names; \<open>rust_process\<close> and
  \<open>rust_seek\<close> are \<open>rustProcessor.process\<close> and \<open>rustProcessor.seek\<close>.
\<close>

definition load_sample_data :: "jsnum list \<Rightarrow> real \<Rightarrow> processor \<Rightarrow> processor" where
  "load_sample_data leftChannel rate p =
     (console_log ''Worklet: Loading sample data'' p)
       \<lparr>sampleBuffer := Some leftChannel, sampleRate := rate, playbackPosition := 0\<rparr>"

definition set_playback_state :: "bool \<Rightarrow> processor \<Rightarrow> processor" where
  "set_playback_state playing p =
     (let p1 = (console_log ''Worklet: Setting playback state'' p)\<lparr>isPlaying := playing\<rparr>
      in if \<not> playing then p1\<lparr>playbackPosition := 0\<rparr> else p1)"

text \<open>
  Reading \<open>this.sampleBuffer[sampleIndex]\<close>: an index outside the array (a negative one, when
  the position has run below zero) reads \<open>undefined\<close>, which a \<open>Float32Array\<close> stores as \<open>NaN\<close>.
\<close>

definition readSample :: "jsnum list \<Rightarrow> int \<Rightarrow> jsnum" where
  "readSample buf sampleIndex =
     (if 0 \<le> sampleIndex \<and> sampleIndex < int (length buf) then buf ! nat sampleIndex else NaN)"

text \<open>
  One turn of the render loop, for frame \<open>i\<close> of the channel \<open>output\<close>. A write outside
  a typed array is ignored, as \<open>list_update\<close> does.
\<close>

definition renderFrame ::
  "real \<Rightarrow> jsnum list \<Rightarrow> processor \<times> jsnum list \<Rightarrow> nat \<Rightarrow> processor \<times> jsnum list" where
  "renderFrame deviceSampleRate buf st i =
     (let p = fst st; output = snd st;
          sampleIndex = \<lfloor>playbackPosition p\<rfloor>
      in if sampleIndex \<ge> int (length buf)
         then (p\<lparr>playbackPosition := 0, isPlaying := False\<rparr>, output[i := Num 0])
         else (p\<lparr>playbackPosition := playbackPosition p + sampleRate p / deviceSampleRate\<rparr>,
               output[i := readSample buf sampleIndex]))"

definition renderFrames ::
  "real \<Rightarrow> jsnum list \<Rightarrow> nat \<Rightarrow> processor \<times> jsnum list \<Rightarrow> processor \<times> jsnum list" where
  "renderFrames deviceSampleRate buf n st = foldl (renderFrame deviceSampleRate buf) st [0..<n]"

text \<open>Copying the first channel to the second, cell by cell.\<close>

definition copyChannel :: "jsnum list \<Rightarrow> jsnum list \<Rightarrow> jsnum list" where
  "copyChannel output outputRight =
     foldl (\<lambda>r i. r[i := output ! i]) outputRight [0..<length output]"

text \<open>Writing \<open>0\<close> into every cell of every channel of every output.\<close>

definition silence :: "jsnum list list list \<Rightarrow> jsnum list list list" where
  "silence outputs = map (map (map (\<lambda>_. Num 0))) outputs"

text \<open>
  \<open>rustProcessor.process(inputs, outputs)\<close>; \<open>inputs\<close> is not read. The test
  \<open>this.sampleBuffer && this.isPlaying && outputs[0] && outputs[0][0]\<close> holds when a
  buffer is loaded (an empty array is truthy), the transport is playing and the first
  output has a first channel. The result is the updated processor, the updated outputs
  and the returned value.
\<close>

definition rust_process ::
  "real \<Rightarrow> processor \<Rightarrow> jsnum list list list \<Rightarrow> processor \<times> jsnum list list list \<times> bool" where
  "rust_process deviceSampleRate p outputs =
     (case (sampleBuffer p, isPlaying p, outputs) of
        (Some buf, True, (output # channels) # otherOutputs) \<Rightarrow>
          (let bufferLength = length output;
               (p1, output1) = renderFrames deviceSampleRate buf bufferLength (p, output);
               channels1 = (case channels of
                              [] \<Rightarrow> []
                            | outputRight # others \<Rightarrow> copyChannel output1 outputRight # others)
           in (p1, (output1 # channels1) # otherOutputs, True))
      | _ \<Rightarrow> (p, silence outputs, True))"

definition rust_seek :: "real \<Rightarrow> processor \<Rightarrow> processor" where
  "rust_seek time p =
     (case sampleBuffer p of
        Some buf \<Rightarrow>
          (if sampleRate p \<noteq> 0
           then p\<lparr>playbackPosition :=
                    max 0 (min (real_of_int \<lfloor>time * sampleRate p\<rfloor>) (real (length buf) - 1))\<rparr>
           else p)
      | None \<Rightarrow> p)"

subsection \<open>The methods of the processor class\<close>

definition initializeWasm :: "processor \<Rightarrow> processor" where
  "initializeWasm p =
     postMessage Initialized
       (console_log ''Wasm processor initialized in worklet''
          (p\<lparr>sampleBuffer := None, sampleRate := 0, isPlaying := False, playbackPosition := 0,
             initialized := True, rustProcessor := Some ()\<rparr>))"

text \<open>
  The argument of a \<open>loadSample\<close> message. A message without \<open>audioData\<close> is \<open>None\<close>:
  reading \<open>audioData.left\<close> then throws inside the \<open>try\<close>. \<open>right\<close> is read into a local
  that is never used.
\<close>

record audioData =
  left :: "jsnum list"
  right :: "jsnum list option"
  audioSampleRate :: real

definition loadSample :: "audioData option \<Rightarrow> processor \<Rightarrow> processor" where
  "loadSample audioData p =
     (if \<not> initialized p
      then console_warn ''Cannot load sample: Wasm processor not initialized'' p
      else
        (case (audioData, rustProcessor p) of
           (Some a, Some _) \<Rightarrow>
             postMessage SampleLoaded
               (console_log ''Sample loaded:'' (load_sample_data (left a) (audioSampleRate a) p))
         | _ \<Rightarrow>
             postMessage (ErrorMessage ''Failed to load sample'')
               (console_error ''Failed to load sample:'' p)))"

text \<open>
  \<open>setPlaybackState(isPlaying, resetPosition = false)\<close>. The fields are assigned before
  \<open>rustProcessor.set_playback_state\<close> is called, so they stay assigned when that call throws.
\<close>

definition setPlaybackState :: "bool \<Rightarrow> bool \<Rightarrow> processor \<Rightarrow> processor" where
  "setPlaybackState playing resetPosition p =
     (if \<not> initialized p
      then console_warn ''Cannot set playback state: Wasm processor not initialized'' p
      else
        (let p1 = p\<lparr>isPlaying := playing\<rparr>;
             p2 = (if resetPosition then p1\<lparr>playbackPosition := 0\<rparr> else p1)
         in case rustProcessor p2 of
              Some _ \<Rightarrow> console_log ''Playback state set to:'' (set_playback_state playing p2)
            | None \<Rightarrow> console_error ''Failed to set playback state:'' p2))"

definition seek_worklet :: "real \<Rightarrow> processor \<Rightarrow> processor" where
  "seek_worklet time p =
     (if \<not> initialized p
      then console_warn ''Cannot seek: Wasm processor not initialized'' p
      else
        (case sampleBuffer p of
           Some buf \<Rightarrow>
             (if sampleRate p \<noteq> 0
              then console_log ''Seeking to time:''
                     (p\<lparr>playbackPosition :=
                          max 0 (min (real_of_int \<lfloor>time * sampleRate p\<rfloor>) (real (length buf) - 1))\<rparr>)
              else p)
         | None \<Rightarrow> p))"

definition setLoopPoints :: "real \<Rightarrow> real \<Rightarrow> bool \<Rightarrow> processor \<Rightarrow> processor" where
  "setLoopPoints startTime endTime enabled p =
     (if \<not> initialized p
      then console_warn ''Cannot set loop points: Wasm processor not initialized'' p
      else console_log ''Loop points set:'' p)"

text \<open>
  The three envelope methods and \<open>setEffectParameter\<close> have a body that only logs
  (``Implementation will be added when the Rust processor supports envelopes'').
\<close>

definition triggerEnvelope :: "processor \<Rightarrow> processor" where
  "triggerEnvelope p =
     (if \<not> initialized p
      then console_warn ''Cannot trigger envelope: Wasm processor not initialized'' p
      else console_log ''Envelope triggered'' p)"

definition releaseEnvelope :: "processor \<Rightarrow> processor" where
  "releaseEnvelope p =
     (if \<not> initialized p
      then console_warn ''Cannot release envelope: Wasm processor not initialized'' p
      else console_log ''Envelope released'' p)"

definition setEnvelopeParameters ::
  "real \<Rightarrow> real \<Rightarrow> real \<Rightarrow> real \<Rightarrow> real \<Rightarrow> processor \<Rightarrow> processor" where
  "setEnvelopeParameters attack decay hold sustain release p =
     (if \<not> initialized p
      then console_warn ''Cannot set envelope parameters: Wasm processor not initialized'' p
      else console_log ''Envelope parameters set:'' p)"

definition setEffectParameter :: "string \<Rightarrow> string \<Rightarrow> real \<Rightarrow> processor \<Rightarrow> processor" where
  "setEffectParameter effectType paramName v p =
     (if \<not> initialized p
      then console_warn ''Cannot set effect parameter: Wasm processor not initialized'' p
      else console_log ''Effect parameter set:'' p)"

datatype command =
    Init
  | LoadSample "audioData option"
  | SetPlaybackState bool bool
  | Seek real
  | SetLoopPoints real real bool
  | TriggerEnvelope
  | ReleaseEnvelope
  | SetEnvelopeParameters real real real real real
  | SetEffectParameter string string real
  | Unknown string

fun handleMessage :: "command \<Rightarrow> processor \<Rightarrow> processor" where
  "handleMessage Init p = initializeWasm p"
| "handleMessage (LoadSample a) p = loadSample a p"
| "handleMessage (SetPlaybackState playing resetPosition) p = setPlaybackState playing resetPosition p"
| "handleMessage (Seek time) p = seek_worklet time p"
| "handleMessage (SetLoopPoints s e enabled) p = setLoopPoints s e enabled p"
| "handleMessage TriggerEnvelope p = triggerEnvelope p"
| "handleMessage ReleaseEnvelope p = releaseEnvelope p"
| "handleMessage (SetEnvelopeParameters a d h s r) p = setEnvelopeParameters a d h s r p"
| "handleMessage (SetEffectParameter e n v) p = setEffectParameter e n v p"
| "handleMessage (Unknown t) p = console_warn ''Unknown message type:'' p"

subsection \<open>The render callback\<close>

text \<open>The level loop over the first channel: \<open>peak\<close> and \<open>sum\<close>, then \<open>rms\<close>.\<close>

definition levelStep :: "jsnum \<times> jsnum \<Rightarrow> jsnum \<Rightarrow> jsnum \<times> jsnum" where
  "levelStep acc x =
     (let a = js_abs x in (js_max (fst acc) a, js_add (snd acc) (js_mul a a)))"

definition levels :: "jsnum list \<Rightarrow> message" where
  "levels output =
     (let (peak, total) = foldl levelStep (Num 0, Num 0) output;
          rms = js_sqrt (js_div_length total (length output))
      in Levels peak rms)"

text \<open>
  What a call inside the \<open>try\<close> block does: it returns a value or throws. In both cases
  it may have changed the processor and the outputs before.
\<close>

datatype 'a outcome = Returns 'a | Throws

text \<open>
  \<open>process(inputs, outputs, parameters)\<close> over an inner \<open>rustProcessor.process\<close>. With
  \<open>rnd < 0.05\<close> the levels of \<open>outputs[0][0]\<close> are posted; \<open>outputs[0][0]\<close> throws when
  there is no output at all, and is \<open>undefined\<close> when the first output has no channel.
  The \<open>catch\<close> block writes one console line and returns \<open>true\<close>.
\<close>

definition process_with ::
  "(processor \<Rightarrow> jsnum list list list \<Rightarrow> processor \<times> jsnum list list list \<times> bool outcome) \<Rightarrow>
   real \<Rightarrow> processor \<Rightarrow> jsnum list list list \<Rightarrow> processor \<times> jsnum list list list \<times> bool" where
  "process_with inner rnd p outputs =
     (if \<not> initialized p \<or> rustProcessor p = None
      then (p, silence outputs, True)
      else
        (case inner p outputs of
           (p1, outputs1, Throws) \<Rightarrow>
             (console_error ''Error in audio processing:'' p1, outputs1, True)
         | (p1, outputs1, Returns result) \<Rightarrow>
             (if rnd < 0.05
              then (case outputs1 of
                      [] \<Rightarrow> (console_error ''Error in audio processing:'' p1, outputs1, True)
                    | [] # _ \<Rightarrow> (p1, outputs1, result)
                    | (output # _) # _ \<Rightarrow> (postMessage (levels output) p1, outputs1, result))
              else (p1, outputs1, result))))"

text \<open>The inner processor of the JavaScript implementation never throws.\<close>

definition rust_inner ::
  "real \<Rightarrow> processor \<Rightarrow> jsnum list list list \<Rightarrow> processor \<times> jsnum list list list \<times> bool outcome" where
  "rust_inner deviceSampleRate p outputs =
     (let (p1, outputs1, result) = rust_process deviceSampleRate p outputs
      in (p1, outputs1, Returns result))"

definition process ::
  "real \<Rightarrow> real \<Rightarrow> processor \<Rightarrow> jsnum list list list \<Rightarrow> processor \<times> jsnum list list list \<times> bool" where
  "process deviceSampleRate rnd p outputs = process_with (rust_inner deviceSampleRate) rnd p outputs"

section \<open>Concrete inputs used in the examples\<close>

text \<open>A frame captured at second \<open>n\<close> of the video.\<close>

definition frameAt :: "nat \<Rightarrow> frame" where
  "frameAt n = \<lparr>timestamp = real n * 1000000, width = 1, height = 1, imageData = []\<rparr>"

text \<open>A manager of a one-minute video whose decoder time is \<open>t\<close>.\<close>

definition decoderAt :: "real \<Rightarrow> decoder" where
  "decoderAt t = VideoDecoderManager\<lparr>currentTime := t, duration := 60\<rparr>"

text \<open>
  A two-sample recording at 44100 Hz, and a load message with an empty buffer and the
  sample rate 0.
\<close>

definition twoSamples :: audioData where
  "twoSamples = \<lparr>left = [Num 5, Num 7], right = None, audioSampleRate = 44100\<rparr>"

definition emptyData :: audioData where
  "emptyData = \<lparr>left = [], right = None, audioSampleRate = 0\<rparr>"

text \<open>
  The processor after \<open>init\<close>; after loading \<open>twoSamples\<close>; after the play command;
  and after envelope parameters (release time of one device frame), a trigger and a
  release have been sent to the playing processor.
\<close>

definition readyProcessor :: processor where
  "readyProcessor = handleMessage Init SamplerProcessor"

definition loadedProcessor :: processor where
  "loadedProcessor = handleMessage (LoadSample (Some twoSamples)) readyProcessor"

definition playingProcessor :: processor where
  "playingProcessor =
     handleMessage (SetPlaybackState True False)
       (handleMessage (LoadSample (Some twoSamples)) readyProcessor)"

definition releasedProcessor :: processor where
  "releasedProcessor =
     handleMessage ReleaseEnvelope
       (handleMessage TriggerEnvelope
          (handleMessage (SetEnvelopeParameters 1 (1 / 10) 0 (7 / 10) (1 / 44100)) playingProcessor))"

text \<open>An inner \<open>rustProcessor.process\<close> that writes 1 into every cell and then throws.\<close>

definition throwingInner ::
  "processor \<Rightarrow> jsnum list list list \<Rightarrow> processor \<times> jsnum list list list \<times> bool outcome" where
  "throwingInner p outputs = (p, map (map (map (\<lambda>_. Num 1))) outputs, Throws)"

section \<open>The frame buffer is a bounded queue\<close>

text \<open>
  The eviction loop leaves the last \<open>maxBufferSize\<close> frames and closes the ones
  before them, oldest first.
\<close>

lemma evictOldest_drop:
  "evictOldest d =
     d\<lparr>frameBuffer := drop (length (frameBuffer d) - maxBufferSize d) (frameBuffer d),
       closed := closed d @ take (length (frameBuffer d) - maxBufferSize d) (frameBuffer d)\<rparr>"
proof (induction d rule: evictOldest.induct)
  case (1 d)
  show ?case
  proof (cases "length (frameBuffer d) > maxBufferSize d")
    case False
    then show ?thesis by (simp add: evictOldest.simps [of d])
  next
    case True
    then obtain f rest where b: "frameBuffer d = f # rest"
      by (cases "frameBuffer d") auto
    have k: "length (frameBuffer d) - maxBufferSize d = Suc (length rest - maxBufferSize d)"
      using True b by simp
    show ?thesis
      using "1.IH" [OF True b] True b k
      by (subst evictOldest.simps) simp
  qed
qed

lemma addFrameToBuffer_buffer:
  "frameBuffer (addFrameToBuffer d f) =
     drop (Suc (length (frameBuffer d)) - maxBufferSize d) (frameBuffer d @ [f])"
  by (simp add: addFrameToBuffer_def evictOldest_drop)

lemma addFrameToBuffer_closed:
  "closed (addFrameToBuffer d f) =
     closed d @ take (Suc (length (frameBuffer d)) - maxBufferSize d) (frameBuffer d @ [f])"
  by (simp add: addFrameToBuffer_def evictOldest_drop)

lemma addFrameToBuffer_max: "maxBufferSize (addFrameToBuffer d f) = maxBufferSize d"
  by (simp add: addFrameToBuffer_def evictOldest_drop)

lemma pushes_max: "maxBufferSize (foldl addFrameToBuffer d fs) = maxBufferSize d"
  by (induction fs arbitrary: d) (simp_all add: addFrameToBuffer_max)

lemma pushes_length:
  "length (frameBuffer d) \<le> maxBufferSize d \<Longrightarrow>
   length (frameBuffer (foldl addFrameToBuffer d fs)) \<le> maxBufferSize d"
proof (induction fs arbitrary: d)
  case Nil
  then show ?case by simp
next
  case (Cons f fs)
  have "length (frameBuffer (addFrameToBuffer d f)) \<le> maxBufferSize (addFrameToBuffer d f)"
    by (simp add: addFrameToBuffer_buffer addFrameToBuffer_max)
  from Cons.IH [OF this] show ?case by (simp add: addFrameToBuffer_max)
qed

lemma pushes_with_room:
  "length (frameBuffer d) + length fs \<le> maxBufferSize d \<Longrightarrow>
   foldl addFrameToBuffer d fs = d\<lparr>frameBuffer := frameBuffer d @ fs\<rparr>"
proof (induction fs arbitrary: d)
  case Nil
  then show ?case by simp
next
  case (Cons f fs)
  have step: "addFrameToBuffer d f = d\<lparr>frameBuffer := frameBuffer d @ [f]\<rparr>"
    using Cons.prems by (simp add: addFrameToBuffer_def evictOldest_drop)
  show ?case
    using Cons.prems by (simp add: step Cons.IH)
qed

text \<open>
  C5. Starting from the constructor, after any sequence of \<open>addFrameToBuffer\<close> calls the
  buffer holds at most 30 frames. A further push into a buffer of 30 frames removes
  exactly the first (oldest) frame, whose \<open>close()\<close> is the only one called, and keeps
  all the others in order before the new frame; a push into a buffer with room evicts
  and closes nothing.
\<close>

theorem C5_frame_buffer_bounded_fifo:
  "(let d = foldl addFrameToBuffer VideoDecoderManager fs in
      maxBufferSize d = 30 \<and> length (frameBuffer d) \<le> 30 \<and>
      (length (frameBuffer d) = 30 \<longrightarrow>
         frameBuffer (addFrameToBuffer d f) = tl (frameBuffer d) @ [f] \<and>
         closed (addFrameToBuffer d f) = closed d @ [hd (frameBuffer d)]) \<and>
      (length (frameBuffer d) < 30 \<longrightarrow>
         frameBuffer (addFrameToBuffer d f) = frameBuffer d @ [f] \<and>
         closed (addFrameToBuffer d f) = closed d))"
proof -
  define d where "d = foldl addFrameToBuffer VideoDecoderManager fs"
  have m: "maxBufferSize d = 30"
    by (simp add: d_def pushes_max VideoDecoderManager_def)
  have l: "length (frameBuffer d) \<le> 30"
    using pushes_length [of VideoDecoderManager fs]
    by (simp add: d_def VideoDecoderManager_def)
  have full: "frameBuffer (addFrameToBuffer d f) = tl (frameBuffer d) @ [f] \<and>
         closed (addFrameToBuffer d f) = closed d @ [hd (frameBuffer d)]"
    if "length (frameBuffer d) = 30"
  proof -
    from that obtain a rest where "frameBuffer d = a # rest" by (cases "frameBuffer d") auto
    with that m show ?thesis
      by (simp add: addFrameToBuffer_buffer addFrameToBuffer_closed)
  qed
  have room: "frameBuffer (addFrameToBuffer d f) = frameBuffer d @ [f] \<and>
         closed (addFrameToBuffer d f) = closed d"
    if "length (frameBuffer d) < 30"
    using that m by (simp add: addFrameToBuffer_buffer addFrameToBuffer_closed)
  show ?thesis
    using m l full room unfolding d_def [symmetric] Let_def by blast
qed

text \<open>
  Thirty frames fill the buffer; the thirty-first push evicts and closes frame 0 only.
  A push into the empty buffer closes nothing.
\<close>

theorem C5_frame_buffer_bounded_fifo_witness:
  "length (frameBuffer (foldl addFrameToBuffer VideoDecoderManager (map frameAt [0..<30]))) = 30 \<and>
   frameBuffer (addFrameToBuffer
       (foldl addFrameToBuffer VideoDecoderManager (map frameAt [0..<30])) (frameAt 30))
     = map frameAt [1..<30] @ [frameAt 30] \<and>
   closed (addFrameToBuffer
       (foldl addFrameToBuffer VideoDecoderManager (map frameAt [0..<30])) (frameAt 30))
     = [frameAt 0] \<and>
   frameBuffer (addFrameToBuffer VideoDecoderManager (frameAt 0)) = [frameAt 0] \<and>
   closed (addFrameToBuffer VideoDecoderManager (frameAt 0)) = []"
proof -
  let ?d = "foldl addFrameToBuffer VideoDecoderManager (map frameAt [0..<30])"
  have d: "?d = VideoDecoderManager\<lparr>frameBuffer := map frameAt [0..<30]\<rparr>"
    by (subst pushes_with_room) (simp_all add: VideoDecoderManager_def)
  have b: "frameBuffer ?d = map frameAt [0..<30]" and c: "closed ?d = []"
    by (simp_all add: d) (simp add: VideoDecoderManager_def)
  have t: "tl (map frameAt [0..<30]) = map frameAt [1..<30]"
    by (simp add: map_tl [symmetric])
  have h: "hd (map frameAt [0..<30]) = frameAt 0"
    by (simp add: hd_map)
  have e: "frameBuffer VideoDecoderManager = []" "closed VideoDecoderManager = []"
    by (simp_all add: VideoDecoderManager_def)
  show ?thesis
    using C5_frame_buffer_bounded_fifo [of "map frameAt [0..<30]" "frameAt 30"]
      C5_frame_buffer_bounded_fifo [of "[]" "frameAt 0"] b c t h e
    by (simp add: Let_def)
qed

section \<open>The nearest buffered frame\<close>

lemma closestLoop_Some:
  "\<exists>f. closestLoop t fs (Some f0, Some \<bar>timestamp f0 - t\<bar>) = (Some f, Some \<bar>timestamp f - t\<bar>)
      \<and> (f = f0 \<or> f \<in> set fs)
      \<and> \<bar>timestamp f - t\<bar> \<le> \<bar>timestamp f0 - t\<bar>
      \<and> (\<forall>g\<in>set fs. \<bar>timestamp f - t\<bar> \<le> \<bar>timestamp g - t\<bar>)"
proof (induction fs arbitrary: f0)
  case Nil
  then show ?case by simp
next
  case (Cons a fs)
  show ?case
  proof (cases "\<bar>timestamp a - t\<bar> < \<bar>timestamp f0 - t\<bar>")
    case True
    from Cons.IH [of a] obtain f where
      "closestLoop t fs (Some a, Some \<bar>timestamp a - t\<bar>) = (Some f, Some \<bar>timestamp f - t\<bar>)"
      "f = a \<or> f \<in> set fs" "\<bar>timestamp f - t\<bar> \<le> \<bar>timestamp a - t\<bar>"
      "\<forall>g\<in>set fs. \<bar>timestamp f - t\<bar> \<le> \<bar>timestamp g - t\<bar>"
      by blast
    with True show ?thesis by (intro exI [of _ f]) auto
  next
    case False
    from Cons.IH [of f0] obtain f where
      "closestLoop t fs (Some f0, Some \<bar>timestamp f0 - t\<bar>) = (Some f, Some \<bar>timestamp f - t\<bar>)"
      "f = f0 \<or> f \<in> set fs" "\<bar>timestamp f - t\<bar> \<le> \<bar>timestamp f0 - t\<bar>"
      "\<forall>g\<in>set fs. \<bar>timestamp f - t\<bar> \<le> \<bar>timestamp g - t\<bar>"
      by blast
    with False show ?thesis by (intro exI [of _ f]) auto
  qed
qed

lemma closestLoop_nearest:
  assumes "fs \<noteq> []"
  shows "\<exists>f\<in>set fs. fst (closestLoop t fs (None, None)) = Some f
           \<and> (\<forall>g\<in>set fs. \<bar>timestamp f - t\<bar> \<le> \<bar>timestamp g - t\<bar>)"
proof -
  from assms obtain a rest where fs: "fs = a # rest" by (cases fs) auto
  from closestLoop_Some [of t rest a] obtain f where
    "closestLoop t rest (Some a, Some \<bar>timestamp a - t\<bar>) = (Some f, Some \<bar>timestamp f - t\<bar>)"
    "f = a \<or> f \<in> set rest" "\<bar>timestamp f - t\<bar> \<le> \<bar>timestamp a - t\<bar>"
    "\<forall>g\<in>set rest. \<bar>timestamp f - t\<bar> \<le> \<bar>timestamp g - t\<bar>"
    by blast
  then show ?thesis unfolding fs by (intro bexI [of _ f]) auto
qed

text \<open>
  C6. \<open>getFrameAtTime d t\<close> is \<open>null\<close> on an empty buffer; on a non-empty buffer it is a
  buffered frame whose timestamp is at least as close to \<open>t\<close> (in microseconds) as that
  of every buffered frame, whether that frame lies before or after \<open>t\<close>. After
  \<open>clearFrameBuffer\<close>, and after \<open>seek\<close>, which clears, it is \<open>null\<close>.
\<close>

theorem C6_getFrameAtTime_nearest:
  "(frameBuffer d = [] \<longrightarrow> getFrameAtTime d t = None) \<and>
   (frameBuffer d \<noteq> [] \<longrightarrow>
      (\<exists>f\<in>set (frameBuffer d). getFrameAtTime d t = Some f \<and>
         (\<forall>g\<in>set (frameBuffer d).
            \<bar>timestamp f - t * 1000000\<bar> \<le> \<bar>timestamp g - t * 1000000\<bar>))) \<and>
   getFrameAtTime (clearFrameBuffer d) t = None \<and>
   getFrameAtTime (seek d t') t = None"
proof -
  have "getFrameAtTime (clearFrameBuffer d) t = None"
    by (simp add: getFrameAtTime_def clearFrameBuffer_def)
  moreover have "getFrameAtTime (seek d t') t = None"
    by (simp add: getFrameAtTime_def seek_def clearFrameBuffer_def Let_def)
  moreover have "frameBuffer d = [] \<longrightarrow> getFrameAtTime d t = None"
    by (simp add: getFrameAtTime_def)
  moreover have "frameBuffer d \<noteq> [] \<longrightarrow>
      (\<exists>f\<in>set (frameBuffer d). getFrameAtTime d t = Some f \<and>
         (\<forall>g\<in>set (frameBuffer d).
            \<bar>timestamp f - t * 1000000\<bar> \<le> \<bar>timestamp g - t * 1000000\<bar>))"
    using closestLoop_nearest [of "frameBuffer d" "t * 1000000"]
    by (simp add: getFrameAtTime_def)
  ultimately show ?thesis by blast
qed

text \<open>
  With frames at seconds 1 and 2 buffered, the query time 1.9 s selects the frame at
  second 2, which is ahead of the query time; the freshly constructed manager, whose
  buffer is empty, gives \<open>null\<close>.
\<close>

theorem C6_getFrameAtTime_nearest_witness:
  "frameBuffer (VideoDecoderManager\<lparr>frameBuffer := [frameAt 1, frameAt 2]\<rparr>) \<noteq> [] \<and>
   getFrameAtTime (VideoDecoderManager\<lparr>frameBuffer := [frameAt 1, frameAt 2]\<rparr>) (19 / 10)
     = Some (frameAt 2) \<and>
   19 / 10 * 1000000 < timestamp (frameAt 2) \<and>
   frameBuffer VideoDecoderManager = [] \<and>
   getFrameAtTime VideoDecoderManager (19 / 10) = None"
  using C6_getFrameAtTime_nearest
          [of "VideoDecoderManager\<lparr>frameBuffer := [frameAt 1, frameAt 2]\<rparr>" "19 / 10"]
        C6_getFrameAtTime_nearest [of VideoDecoderManager "19 / 10"]
  by (simp add: getFrameAtTime_def frameAt_def VideoDecoderManager_def)

section \<open>The synchronisation tick\<close>

lemma seek_changes: "seek vd t \<noteq> vd"
proof
  assume "seek vd t = vd"
  then have "console (seek vd t) = console vd" by simp
  then show False by (simp add: seek_def clearFrameBuffer_def Let_def)
qed

text \<open>
  C7. On a sync tick with a decoder, when the absolute difference between the audio
  time and the decoder's current time exceeds \<open>maxTimeDifference\<close>, the decoder is
  the result of \<open>seek\<close> called with the audio time (the video element is set to that
  time clamped to the video's duration); when the difference is at or below the
  threshold the decoder is returned as it was, and this differs from any sought
  state, since \<open>seek\<close> always leaves a console line. Without a decoder nothing
  happens. The default threshold is 0.1 s.
\<close>

theorem C7_sync_resync_threshold:
  "(maxTimeDifference (config m) < \<bar>audioTime - currentTime vd\<bar> \<longrightarrow>
      snd (syncAudioVideo m now (Some vd) audioTime) = Some (seek vd audioTime)) \<and>
   (\<bar>audioTime - currentTime vd\<bar> \<le> maxTimeDifference (config m) \<longrightarrow>
      snd (syncAudioVideo m now (Some vd) audioTime) = Some vd) \<and>
   seek vd audioTime \<noteq> vd \<and>
   videoElementCurrentTime (seek vd audioTime) = max 0 (min audioTime (duration vd)) \<and>
   syncAudioVideo m now None audioTime = (m, None) \<and>
   maxTimeDifference (config syncModuleInit) = 1 / 10"
  using seek_changes [of vd audioTime]
  by (simp add: syncAudioVideo_def Let_def syncModuleInit_def seek_def clearFrameBuffer_def)

text \<open>
  Audio at 10.00 s and video at 9.85 s (difference 0.15 s): the decoder is sought to
  10 s. Audio at 10.00 s and video at 9.95 s (difference 0.05 s): the decoder is unchanged.
\<close>

theorem C7_sync_resync_threshold_witness:
  "maxTimeDifference (config syncModuleInit) < \<bar>10 - currentTime (decoderAt (985 / 100))\<bar> \<and>
   snd (syncAudioVideo syncModuleInit 0 (Some (decoderAt (985 / 100))) 10)
     = Some (seek (decoderAt (985 / 100)) 10) \<and>
   videoElementCurrentTime (seek (decoderAt (985 / 100)) 10) = 10 \<and>
   \<bar>10 - currentTime (decoderAt (995 / 100))\<bar> \<le> maxTimeDifference (config syncModuleInit) \<and>
   snd (syncAudioVideo syncModuleInit 0 (Some (decoderAt (995 / 100))) 10)
     = Some (decoderAt (995 / 100))"
  using C7_sync_resync_threshold [of syncModuleInit 10 "decoderAt (985 / 100)" 0]
        C7_sync_resync_threshold [of syncModuleInit 10 "decoderAt (995 / 100)" 0]
  by (simp add: decoderAt_def syncModuleInit_def VideoDecoderManager_def)

text \<open>
  C8. With a decoder and a non-zero threshold, \<open>calculateSyncMetrics\<close> returns the time
  difference \<open>audioTime - videoTime\<close>, \<open>inSync = (|timeDifference| \<le> maxTimeDifference)\<close>
  and \<open>syncQuality = max(0, 100 - (|timeDifference| / maxTimeDifference) * 100)\<close>. For the
  default configuration (threshold 0.1) and a drift of 0.05 the quality is 50 and
  \<open>inSync\<close> is true.
\<close>

theorem C8_sync_metrics:
  "(maxTimeDifference (config m) \<noteq> 0 \<longrightarrow>
      calculateSyncMetrics m (Some vd) audioTime =
        \<lparr>timeDifference = audioTime - currentTime vd,
         inSync = (\<bar>audioTime - currentTime vd\<bar> \<le> maxTimeDifference (config m)),
         syncQuality = Num (max 0 (100 - (\<bar>audioTime - currentTime vd\<bar>
                                           / maxTimeDifference (config m)) * 100))\<rparr>) \<and>
   calculateSyncMetrics syncModuleInit (Some vd) audioTime =
        \<lparr>timeDifference = audioTime - currentTime vd,
         inSync = (\<bar>audioTime - currentTime vd\<bar> \<le> 1 / 10),
         syncQuality = Num (max 0 (100 - (\<bar>audioTime - currentTime vd\<bar> / (1 / 10)) * 100))\<rparr> \<and>
   (\<bar>audioTime - currentTime vd\<bar> = 5 / 100 \<longrightarrow>
      syncQuality (calculateSyncMetrics syncModuleInit (Some vd) audioTime) = Num 50 \<and>
      inSync (calculateSyncMetrics syncModuleInit (Some vd) audioTime))"
  by (simp add: calculateSyncMetrics_def Let_def syncModuleInit_def)

text \<open>Audio at 0.05 s, video at 0 s, default configuration.\<close>

theorem C8_sync_metrics_witness:
  "maxTimeDifference (config syncModuleInit) \<noteq> 0 \<and>
   \<bar>5 / 100 - currentTime (decoderAt 0)\<bar> = 5 / 100 \<and>
   calculateSyncMetrics syncModuleInit (Some (decoderAt 0)) (5 / 100) =
     \<lparr>timeDifference = 5 / 100, inSync = True, syncQuality = Num 50\<rparr>"
  using C8_sync_metrics [of syncModuleInit "decoderAt 0" "5 / 100"]
  by (simp add: decoderAt_def syncModuleInit_def VideoDecoderManager_def)

section \<open>The render loop of the sampler\<close>

lemmas worklet_defs =
  SamplerProcessor_def initializeWasm_def loadSample_def setPlaybackState_def
  load_sample_data_def set_playback_state_def console_log_def console_warn_def
  console_error_def postMessage_def seek_worklet_def setLoopPoints_def triggerEnvelope_def
  releaseEnvelope_def setEnvelopeParameters_def setEffectParameter_def

lemma playingProcessor_fields:
  "sampleBuffer playingProcessor = Some [Num 5, Num 7]"
  "isPlaying playingProcessor"
  "playbackPosition playingProcessor = 0"
  "sampleRate playingProcessor = 44100"
  "initialized playingProcessor"
  "rustProcessor playingProcessor = Some ()"
  "port playingProcessor = [Initialized, SampleLoaded]"
  by (simp_all add: playingProcessor_def readyProcessor_def twoSamples_def worklet_defs Let_def)



lemma renderFrame_sampleRate: "sampleRate (fst (renderFrame r buf st i)) = sampleRate (fst st)"
  by (simp add: renderFrame_def Let_def)





lemma frames_sampleRate:
  "sampleRate (fst (foldl (renderFrame r buf) st is)) = sampleRate (fst st)"
  by (induction "is" arbitrary: st) (simp_all add: renderFrame_sampleRate)








lemma rust_process_playing:
  assumes "sampleBuffer p = Some buf" "isPlaying p"
  shows "rust_process r p ((output # channels) # others) =
     (fst (renderFrames r buf (length output) (p, output)),
      (snd (renderFrames r buf (length output) (p, output)) #
       (case channels of
          [] \<Rightarrow> []
        | outputRight # rest \<Rightarrow>
            copyChannel (snd (renderFrames r buf (length output) (p, output))) outputRight # rest))
      # others,
      True)"
  using assms by (simp add: rust_process_def Let_def case_prod_beta)









section \<open>Loading a sample\<close>

text \<open>
  C2 (as amended). A load command is not validated. On an initialised processor every
  load that carries audio data, also one with an empty buffer or a non-positive
  sample rate, replaces the sample buffer and the rate, resets the position to 0 and
  posts exactly one \<open>sampleLoaded\<close> event and no error event. Only a load whose audio
  data cannot be read (the message carries none) keeps the previous sample, rate and
  position and posts an error event and no \<open>sampleLoaded\<close>. Before initialisation a
  load only writes a console warning.
\<close>

theorem C2_load_accepts_without_validation:
  "(initialized p \<and> rustProcessor p = Some u \<longrightarrow>
      sampleBuffer (loadSample (Some a) p) = Some (left a) \<and>
      sampleRate (loadSample (Some a) p) = audioSampleRate a \<and>
      playbackPosition (loadSample (Some a) p) = 0 \<and>
      port (loadSample (Some a) p) = port p @ [SampleLoaded]) \<and>
   (initialized p \<longrightarrow>
      sampleBuffer (loadSample None p) = sampleBuffer p \<and>
      sampleRate (loadSample None p) = sampleRate p \<and>
      playbackPosition (loadSample None p) = playbackPosition p \<and>
      port (loadSample None p) = port p @ [ErrorMessage ''Failed to load sample'']) \<and>
   (\<not> initialized p \<longrightarrow>
      loadSample b p = console_warn ''Cannot load sample: Wasm processor not initialized'' p \<and>
      port (loadSample b p) = port p)"
  by (simp add: worklet_defs)

text \<open>
  On the processor that holds the two-sample recording: the empty load replaces it,
  the load without data keeps it; on the fresh processor the load posts nothing.
\<close>

theorem C2_load_accepts_without_validation_witness:
  "initialized loadedProcessor \<and> rustProcessor loadedProcessor = Some () \<and>
   sampleBuffer (loadSample (Some emptyData) loadedProcessor) = Some [] \<and>
   port (loadSample (Some emptyData) loadedProcessor) = [Initialized, SampleLoaded, SampleLoaded] \<and>
   sampleBuffer (loadSample None loadedProcessor) = Some [Num 5, Num 7] \<and>
   port (loadSample None loadedProcessor)
     = [Initialized, SampleLoaded, ErrorMessage ''Failed to load sample''] \<and>
   \<not> initialized SamplerProcessor \<and>
   port (loadSample (Some emptyData) SamplerProcessor) = []"
  using C2_load_accepts_without_validation [of loadedProcessor "()" emptyData]
        C2_load_accepts_without_validation [of SamplerProcessor "()" emptyData "Some emptyData"]
  by (simp add: loadedProcessor_def readyProcessor_def twoSamples_def emptyData_def worklet_defs)

text \<open>
  C2 as stated fails. The processor holds the two-sample recording at 44100 Hz. A load
  with an empty buffer and the rate 0 replaces both and posts a second
  \<open>sampleLoaded\<close>; no error event is posted.
\<close>

theorem C2_counterexample:
  "initialized loadedProcessor \<and>
   sampleBuffer loadedProcessor = Some [Num 5, Num 7] \<and>
   sampleRate loadedProcessor = 44100 \<and>
   port loadedProcessor = [Initialized, SampleLoaded] \<and>
   left emptyData = [] \<and> audioSampleRate emptyData \<le> 0 \<and>
   sampleBuffer (handleMessage (LoadSample (Some emptyData)) loadedProcessor) = Some [] \<and>
   sampleRate (handleMessage (LoadSample (Some emptyData)) loadedProcessor) = 0 \<and>
   port (handleMessage (LoadSample (Some emptyData)) loadedProcessor)
     = [Initialized, SampleLoaded, SampleLoaded]"
  by (simp add: loadedProcessor_def readyProcessor_def twoSamples_def emptyData_def worklet_defs)

section \<open>Exceptions at the render boundary\<close>

text \<open>
  C3 (as amended). On an initialised processor, an exception raised inside the
  per-block step (by the inner processor, or by the level report when there is no
  output at all) is caught at the render boundary: one error line is written to the
  console and the callback returns \<open>true\<close>. No event is posted on the port, and the
  outputs are left as they were when the exception was raised; no silence is written.
\<close>

theorem C3_exception_logged_and_survived:
  assumes "initialized p" "rustProcessor p = Some u"
  shows "(inner p outputs = (p1, outputs1, Throws) \<longrightarrow>
            process_with inner rnd p outputs
              = (console_error ''Error in audio processing:'' p1, outputs1, True) \<and>
            port (fst (process_with inner rnd p outputs)) = port p1) \<and>
         (inner p outputs = (p1, [], Returns result) \<and> rnd < 5 / 100 \<longrightarrow>
            process_with inner rnd p outputs
              = (console_error ''Error in audio processing:'' p1, [], True) \<and>
            port (fst (process_with inner rnd p outputs)) = port p1)"
  using assms by (simp add: process_with_def console_error_def)

text \<open>
  An inner processor that fills the block with 1 and throws; and the JavaScript
  inner processor called without any output while the level report is due.
\<close>

theorem C3_exception_logged_and_survived_witness:
  "initialized playingProcessor \<and> rustProcessor playingProcessor = Some () \<and>
   throwingInner playingProcessor [[[Num 9, Num 9]]]
     = (playingProcessor, [[[Num 1, Num 1]]], Throws) \<and>
   process_with throwingInner (1 / 2) playingProcessor [[[Num 9, Num 9]]]
     = (console_error ''Error in audio processing:'' playingProcessor, [[[Num 1, Num 1]]], True) \<and>
   rust_inner 44100 playingProcessor [] = (playingProcessor, [], Returns True) \<and>
   process_with (rust_inner 44100) (1 / 100) playingProcessor []
     = (console_error ''Error in audio processing:'' playingProcessor, [], True)"
  using C3_exception_logged_and_survived
          [where p = playingProcessor and u = "()" and inner = throwingInner
             and outputs = "[[[Num 9, Num 9]]]" and ?p1.0 = playingProcessor
             and ?outputs1.0 = "[[[Num 1, Num 1]]]" and rnd = "1 / 2"]
        C3_exception_logged_and_survived
          [where p = playingProcessor and u = "()" and inner = "rust_inner 44100"
             and outputs = "[]" and ?p1.0 = playingProcessor and result = True
             and rnd = "1 / 100"]
  by (simp add: throwingInner_def rust_inner_def rust_process_def silence_def
      playingProcessor_fields)

text \<open>
  C3 as stated fails. With no output and \<open>Math.random()\<close> below 0.05 the level report
  throws: the port still holds only the two earlier events, no error event. With an
  inner processor that throws after writing 1 into the block, the block is left
  holding 1, not silence, and again no error event is posted.
\<close>

theorem C3_counterexample:
  "initialized playingProcessor \<and> rustProcessor playingProcessor = Some () \<and>
   port playingProcessor = [Initialized, SampleLoaded] \<and>
   process 44100 (1 / 100) playingProcessor []
     = (console_error ''Error in audio processing:'' playingProcessor, [], True) \<and>
   port (fst (process 44100 (1 / 100) playingProcessor [])) = [Initialized, SampleLoaded] \<and>
   snd (snd (throwingInner playingProcessor [[[Num 9, Num 9]]])) = Throws \<and>
   fst (snd (process_with throwingInner (1 / 2) playingProcessor [[[Num 9, Num 9]]]))
     = [[[Num 1, Num 1]]] \<and>
   port (fst (process_with throwingInner (1 / 2) playingProcessor [[[Num 9, Num 9]]]))
     = [Initialized, SampleLoaded]"
  by (simp add: process_def process_with_def rust_inner_def rust_process_def silence_def
      throwingInner_def console_error_def playingProcessor_fields)

section \<open>The envelope commands\<close>

text \<open>The console is not read by the render loop.\<close>

lemma renderFrame_console:
  "renderFrame r buf (p\<lparr>workletConsole := c\<rparr>, out) i =
     ((fst (renderFrame r buf (p, out) i))\<lparr>workletConsole := c\<rparr>,
      snd (renderFrame r buf (p, out) i))"
  by (simp add: renderFrame_def Let_def)

lemma frames_console:
  "foldl (renderFrame r buf) (p\<lparr>workletConsole := c\<rparr>, out) is =
     ((fst (foldl (renderFrame r buf) (p, out) is))\<lparr>workletConsole := c\<rparr>,
      snd (foldl (renderFrame r buf) (p, out) is))"
proof (induction "is" arbitrary: p out)
  case Nil
  then show ?case by simp
next
  case (Cons i "is")
  show ?case
    using Cons.IH [of "fst (renderFrame r buf (p, out) i)" "snd (renderFrame r buf (p, out) i)"]
    by (simp add: renderFrame_console)
qed

lemma rust_process_silent:
  assumes "sampleBuffer p = None \<or> \<not> isPlaying p \<or> outputs = [] \<or> hd outputs = []"
  shows "rust_process r p outputs = (p, silence outputs, True)"
proof (cases outputs)
  case Nil
  then show ?thesis
    by (cases "sampleBuffer p"; cases "isPlaying p") (simp_all add: rust_process_def)
next
  case (Cons out others)
  show ?thesis
  proof (cases out)
    case Nil
    then show ?thesis
      using Cons by (cases "sampleBuffer p"; cases "isPlaying p") (simp_all add: rust_process_def)
  next
    case (Cons out0 channels)
    with \<open>outputs = out # others\<close> assms have "sampleBuffer p = None \<or> \<not> isPlaying p"
      by simp
    then show ?thesis
      by (cases "sampleBuffer p"; cases "isPlaying p") (simp_all add: rust_process_def)
  qed
qed

lemma rust_process_cases:
  obtains (silent) "rust_process r p outputs = (p, silence outputs, True)"
  | (playing) buf out0 channels others where
      "sampleBuffer p = Some buf" "isPlaying p" "outputs = (out0 # channels) # others"
proof (cases "sampleBuffer p = None \<or> \<not> isPlaying p \<or> outputs = [] \<or> hd outputs = []")
  case True
  then show ?thesis using silent rust_process_silent by blast
next
  case False
  then obtain buf where b: "sampleBuffer p = Some buf" by auto
  from False obtain out others where o: "outputs = out # others" by (cases outputs) auto
  with False obtain out0 channels where "out = out0 # channels" by (cases out) auto
  with False b o show ?thesis using playing by blast
qed

lemma rust_process_console:
  "fst (snd (rust_process r (p\<lparr>workletConsole := c\<rparr>) outputs)) = fst (snd (rust_process r p outputs))"
proof (cases "sampleBuffer p = None \<or> \<not> isPlaying p \<or> outputs = [] \<or> hd outputs = []")
  case True
  then have "rust_process r p outputs = (p, silence outputs, True)"
    by (rule rust_process_silent)
  moreover have "rust_process r (p\<lparr>workletConsole := c\<rparr>) outputs
       = (p\<lparr>workletConsole := c\<rparr>, silence outputs, True)"
    using True by (intro rust_process_silent) simp
  ultimately show ?thesis by simp
next
  case False
  then obtain buf where b: "sampleBuffer p = Some buf" by auto
  from False obtain out others where o: "outputs = out # others" by (cases outputs) auto
  with False obtain out0 channels where oc: "out = out0 # channels" by (cases out) auto
  from False have pl: "isPlaying p" by simp
  have b': "sampleBuffer (p\<lparr>workletConsole := c\<rparr>) = Some buf"
    and pl': "isPlaying (p\<lparr>workletConsole := c\<rparr>)"
    using b pl by simp_all
  show ?thesis
    unfolding o oc
    by (cases channels)
       (simp_all add: rust_process_playing [OF b pl] rust_process_playing [OF b' pl']
          renderFrames_def frames_console)
qed

text \<open>
  C4 (as amended). The engine has no envelope stage or level. A trigger command, a
  release command and an envelope-parameter command change nothing of the processor
  but its console, and the block rendered after a trigger or a release is the block
  rendered without it: samples are written as read, not scaled by any level.
\<close>

theorem C4_envelope_commands_only_log:
  "(triggerEnvelope p)\<lparr>workletConsole := workletConsole p\<rparr> = p \<and>
   (releaseEnvelope p)\<lparr>workletConsole := workletConsole p\<rparr> = p \<and>
   (setEnvelopeParameters a d h s rel p)\<lparr>workletConsole := workletConsole p\<rparr> = p \<and>
   fst (snd (rust_process r (triggerEnvelope p) outputs)) = fst (snd (rust_process r p outputs)) \<and>
   fst (snd (rust_process r (releaseEnvelope p) outputs)) = fst (snd (rust_process r p outputs))"
  by (simp add: triggerEnvelope_def releaseEnvelope_def setEnvelopeParameters_def
      console_log_def console_warn_def rust_process_console)

theorem C4_envelope_commands_only_log_witness:
  "(triggerEnvelope playingProcessor)\<lparr>workletConsole := workletConsole playingProcessor\<rparr>
     = playingProcessor \<and>
   fst (snd (rust_process 44100 (triggerEnvelope playingProcessor) [[[Num 9, Num 9]]]))
     = [[[Num 5, Num 7]]]"
proof -
  have "fst (snd (rust_process 44100 playingProcessor [[[Num 9, Num 9]]])) = [[[Num 5, Num 7]]]"
    by (simp add: rust_process_def renderFrames_def renderFrame_def readSample_def Let_def
        playingProcessor_fields)
  then show ?thesis
    using C4_envelope_commands_only_log
            [where p = playingProcessor and r = 44100 and outputs = "[[[Num 9, Num 9]]]"]
    by simp
qed

text \<open>
  C4 as stated fails. After envelope parameters with a release time of one device
  frame, a trigger and a release, the playing processor equals the one before these
  commands up to its console, and the next block is the raw recording \<open>[5, 7]\<close>: the
  second frame, one release time after the release, is 7 and not 0.
\<close>

theorem C4_counterexample:
  "releasedProcessor\<lparr>workletConsole := workletConsole playingProcessor\<rparr> = playingProcessor \<and>
   sampleBuffer releasedProcessor = Some [Num 5, Num 7] \<and>
   fst (snd (rust_process 44100 releasedProcessor [[[Num 9, Num 9]]])) = [[[Num 5, Num 7]]]"
  by (simp add: releasedProcessor_def worklet_defs rust_process_def renderFrames_def
      renderFrame_def readSample_def Let_def playingProcessor_fields)

section \<open>Pause and stop\<close>

text \<open>
  C9. \<open>set_playback_state(false)\<close> sets the position to 0 and the transport to not
  playing, in every state. On an initialised processor the \<open>setPlaybackState\<close> message
  with \<open>isPlaying = false\<close> does so whatever \<open>resetPosition\<close> is: the pause message
  (\<open>resetPosition\<close> absent) and the stop message (\<open>resetPosition = true\<close>) give the same state.
\<close>

theorem C9_stop_and_pause_reset_position:
  "playbackPosition (set_playback_state False p) = 0 \<and>
   \<not> isPlaying (set_playback_state False p) \<and>
   (initialized p \<and> rustProcessor p = Some u \<longrightarrow>
      playbackPosition (handleMessage (SetPlaybackState False resetPosition) p) = 0 \<and>
      \<not> isPlaying (handleMessage (SetPlaybackState False resetPosition) p) \<and>
      handleMessage (SetPlaybackState False False) p = handleMessage (SetPlaybackState False True) p)"
  by (simp add: set_playback_state_def setPlaybackState_def console_log_def Let_def)

text \<open>The playing processor at position 1 receives the pause message.\<close>

theorem C9_stop_and_pause_reset_position_witness:
  "initialized (playingProcessor\<lparr>playbackPosition := 1\<rparr>) \<and>
   rustProcessor (playingProcessor\<lparr>playbackPosition := 1\<rparr>) = Some () \<and>
   playbackPosition (handleMessage (SetPlaybackState False False)
                       (playingProcessor\<lparr>playbackPosition := 1\<rparr>)) = 0 \<and>
   \<not> isPlaying (handleMessage (SetPlaybackState False False)
                   (playingProcessor\<lparr>playbackPosition := 1\<rparr>))"
  using C9_stop_and_pause_reset_position
          [of "playingProcessor\<lparr>playbackPosition := 1\<rparr>" "()" False]
  by (simp add: playingProcessor_fields setPlaybackState_def set_playback_state_def
      console_log_def Let_def)

section \<open>The render callback returns true\<close>

lemma rust_process_true: "snd (snd (rust_process r p outputs)) = True"
  by (cases rule: rust_process_cases [of r p outputs]) (simp_all add: rust_process_playing)

lemma silence_cells:
  "out \<in> set (silence outputs) \<Longrightarrow> channel \<in> set out \<Longrightarrow> x \<in> set channel \<Longrightarrow> x = Num 0"
  by (auto simp add: silence_def)

lemma silence_shape: "map (map length) (silence outputs) = map (map length) outputs"
  by (simp add: silence_def comp_def)

text \<open>
  C10. \<open>process\<close> of the worklet is total and always returns \<open>true\<close>: an exception of
  the inner step is the value \<open>Throws\<close>, and the result of \<open>process\<close> has no such value.
  When the processor is not initialised (or has no \<open>rustProcessor\<close>), whatever the
  inner processor is, the outputs are replaced by silence, 0 in every cell of every
  channel with the shape of the outputs kept, and \<open>true\<close> is returned. When the inner
  processing throws, \<open>true\<close> is returned.
\<close>

theorem C10_process_total_returns_true:
  "snd (snd (process r rnd p outputs)) = True \<and>
   (\<not> initialized p \<or> rustProcessor p = None \<longrightarrow>
      process_with inner rnd p outputs = (p, silence outputs, True)) \<and>
   (\<forall>out\<in>set (silence outputs). \<forall>channel\<in>set out. \<forall>x\<in>set channel. x = Num 0) \<and>
   map (map length) (silence outputs) = map (map length) outputs \<and>
   (snd (snd (inner p outputs)) = Throws \<longrightarrow>
      snd (snd (process_with inner rnd p outputs)) = True)"
proof -
  have a: "snd (snd (process r rnd p outputs)) = True"
    using rust_process_true [of r p outputs]
    by (simp add: process_def process_with_def rust_inner_def case_prod_beta
        split: list.splits)
  have b: "\<not> initialized p \<or> rustProcessor p = None \<longrightarrow>
      process_with inner rnd p outputs = (p, silence outputs, True)"
    by (auto simp add: process_with_def)
  have c: "\<forall>out\<in>set (silence outputs). \<forall>channel\<in>set out. \<forall>x\<in>set channel. x = Num 0"
    using silence_cells by blast
  have d: "snd (snd (inner p outputs)) = Throws \<longrightarrow>
      snd (snd (process_with inner rnd p outputs)) = True"
    by (cases "inner p outputs") (auto simp add: process_with_def)
  show ?thesis using a b c d silence_shape by blast
qed

text \<open>
  The fresh processor on a stereo block; the playing processor around an inner
  processor that throws, and around its own.
\<close>

theorem C10_process_total_returns_true_witness:
  "\<not> initialized SamplerProcessor \<and>
   process 44100 0 SamplerProcessor [[[Num 9, Num 9], [Num 9, Num 9]]]
     = (SamplerProcessor, [[[Num 0, Num 0], [Num 0, Num 0]]], True) \<and>
   snd (snd (throwingInner playingProcessor [[[Num 9, Num 9]]])) = Throws \<and>
   snd (snd (process_with throwingInner 0 playingProcessor [[[Num 9, Num 9]]])) = True \<and>
   snd (snd (process 44100 0 playingProcessor [[[Num 9, Num 9]]])) = True"
proof -
  have u: "\<not> initialized SamplerProcessor"
    by (simp add: SamplerProcessor_def)
  have t: "snd (snd (throwingInner playingProcessor [[[Num 9, Num 9]]])) = Throws"
    by (simp add: throwingInner_def)
  have s: "silence [[[Num 9, Num 9], [Num 9, Num 9]]] = [[[Num 0, Num 0], [Num 0, Num 0]]]"
    by (simp add: silence_def)
  have a: "process 44100 0 SamplerProcessor [[[Num 9, Num 9], [Num 9, Num 9]]]
     = (SamplerProcessor, [[[Num 0, Num 0], [Num 0, Num 0]]], True)"
    using C10_process_total_returns_true
            [where p = SamplerProcessor and inner = "rust_inner 44100" and rnd = 0
               and outputs = "[[[Num 9, Num 9], [Num 9, Num 9]]]",
             THEN conjunct2, THEN conjunct1] u s
    by (simp add: process_def)
  have b: "snd (snd (process_with throwingInner 0 playingProcessor [[[Num 9, Num 9]]])) = True"
    using C10_process_total_returns_true
            [where p = playingProcessor and inner = throwingInner and rnd = 0
               and outputs = "[[[Num 9, Num 9]]]",
             THEN conjunct2, THEN conjunct2, THEN conjunct2, THEN conjunct2] t
    by blast
  have c: "snd (snd (process 44100 0 playingProcessor [[[Num 9, Num 9]]])) = True"
    using C10_process_total_returns_true
            [where p = playingProcessor and r = 44100 and rnd = 0
               and outputs = "[[[Num 9, Num 9]]]", THEN conjunct1] .
  show ?thesis using u t a b c by blast
qed

end
